theory Spec2Isabelle
  imports Main "HOL-Library.Sublist"
begin

section \<open>Python values, exceptions and effects\<close>

text \<open>
  The values that travel through \<^verbatim>\<open>frontend.py\<close>: parsed JSON bodies, the dictionaries
  returned by the analyzer and the generator, and the response dictionaries. A dictionary
  is an association list in insertion order with distinct keys; a lookup takes the entry
  of the key. JSON numbers are integers here: the handlers only test a number for
  truthiness and pass it on.
\<close>

datatype pyval =
    PNone
  | PBool bool
  | PInt int
  | PStr string
  | PList "pyval list"
  | PDict "(string \<times> pyval) list"

text \<open>Python's truth value of an object, as used by \<^verbatim>\<open>if x\<close> and \<^verbatim>\<open>not x\<close>.\<close>

fun truthy :: "pyval \<Rightarrow> bool" where
  "truthy PNone = False"
| "truthy (PBool b) = b"
| "truthy (PInt i) = (i \<noteq> 0)"
| "truthy (PStr s) = (s \<noteq> [])"
| "truthy (PList xs) = (xs \<noteq> [])"
| "truthy (PDict kvs) = (kvs \<noteq> [])"

fun type_name :: "pyval \<Rightarrow> string" where
  "type_name PNone = ''NoneType''"
| "type_name (PBool b) = ''bool''"
| "type_name (PInt i) = ''int''"
| "type_name (PStr s) = ''str''"
| "type_name (PList xs) = ''list''"
| "type_name (PDict kvs) = ''dict''"

text \<open>
  The exceptions a handler can meet. \<open>AttributeError t a\<close>: an object of type \<open>t\<close> has no
  attribute \<open>a\<close>. \<open>TypeError t op\<close>: an object of type \<open>t\<close> does not support the operation \<open>op\<close>
  (a subscript with a string key, or \<^verbatim>\<open>len\<close>).
  \<open>External m\<close>: whatever a collaborator (storage client, analyzer, generator, Flask)
  raises, with its message.
\<close>

datatype py_exn =
    AttributeError string string
  | TypeError string string
  | KeyError string
  | IndexError
  | ValueError string
  | External string

text \<open>\<^verbatim>\<open>d.get(key, default)\<close>: only a dict has the method.\<close>

fun py_get :: "pyval \<Rightarrow> string \<Rightarrow> pyval \<Rightarrow> py_exn + pyval" where
  "py_get (PDict kvs) k d = Inr (case map_of kvs k of None \<Rightarrow> d | Some v \<Rightarrow> v)"
| "py_get v k d = Inl (AttributeError (type_name v) ''get'')"

text \<open>\<^verbatim>\<open>d[key]\<close> with a string key: a missing key raises, and so does any object but a dict.\<close>

fun py_getitem :: "pyval \<Rightarrow> string \<Rightarrow> py_exn + pyval" where
  "py_getitem (PDict kvs) k = (case map_of kvs k of None \<Rightarrow> Inl (KeyError k) | Some v \<Rightarrow> Inr v)"
| "py_getitem v k = Inl (TypeError (type_name v) ''subscript'')"

text \<open>\<^verbatim>\<open>len(x)\<close>.\<close>

fun py_len :: "pyval \<Rightarrow> py_exn + pyval" where
  "py_len (PStr s) = Inr (PInt (int (length s)))"
| "py_len (PList xs) = Inr (PInt (int (length xs)))"
| "py_len (PDict kvs) = Inr (PInt (int (length kvs)))"
| "py_len v = Inl (TypeError (type_name v) ''len'')"

text \<open>\<^verbatim>\<open>xs[i]\<close> on a list, for an index that is not negative.\<close>

definition py_index :: "'a list \<Rightarrow> nat \<Rightarrow> py_exn + 'a" where
  "py_index xs i = (if i < length xs then Inr (xs ! i) else Inl IndexError)"

text \<open>\<^verbatim>\<open>s.split(c, 1)\<close>: cut at the first occurrence of the separator, at most once.\<close>

definition split_once :: "char \<Rightarrow> string \<Rightarrow> string list" where
  "split_once c s =
     (case dropWhile (\<lambda>x. x \<noteq> c) s of
        [] \<Rightarrow> [s]
      | _ # rest \<Rightarrow> [takeWhile (\<lambda>x. x \<noteq> c) s, rest])"

subsection \<open>The clock\<close>

record datetime =
  year :: nat
  month :: nat
  day :: nat
  hour :: nat
  minute :: nat
  second :: nat

text \<open>The ranges Python's \<^verbatim>\<open>datetime\<close> keeps its fields in.\<close>

definition valid_datetime :: "datetime \<Rightarrow> bool" where
  "valid_datetime d \<longleftrightarrow>
     1 \<le> year d \<and> year d \<le> 9999 \<and> 1 \<le> month d \<and> month d \<le> 12 \<and>
     1 \<le> day d \<and> day d \<le> 31 \<and> hour d < 24 \<and> minute d < 60 \<and> second d < 60"

definition digit :: "nat \<Rightarrow> char" where
  "digit n = ''0123456789'' ! (n mod 10)"

definition pad2 :: "nat \<Rightarrow> string" where
  "pad2 n = [digit (n div 10), digit n]"

definition pad4 :: "nat \<Rightarrow> string" where
  "pad4 n = [digit (n div 1000), digit (n div 100), digit (n div 10), digit n]"

text \<open>
  \<^verbatim>\<open>d.strftime('%Y%m%d_%H%M%S')\<close>: the year on four digits, every other field on two,
  zero-padded, as Python documents the directives. (For a year below 1000 some C libraries
  leave the padding out; \<^verbatim>\<open>datetime.now()\<close> never returns one.)
\<close>

definition strftime :: "datetime \<Rightarrow> string" where
  "strftime d =
     pad4 (year d) @ pad2 (month d) @ pad2 (day d) @ ''_'' @
     pad2 (hour d) @ pad2 (minute d) @ pad2 (second d)"

definition is_digit :: "char \<Rightarrow> bool" where
  "is_digit c \<longleftrightarrow> c \<in> set ''0123456789''"

text \<open>Reading a run of decimal digits back as a number.\<close>

definition digit_value :: "char \<Rightarrow> nat" where
  "digit_value c = of_char c - 48"

definition decimal :: "string \<Rightarrow> nat" where
  "decimal s = foldl (\<lambda>a c. 10 * a + digit_value c) 0 s"

subsection \<open>Collaborators and the trace of their calls\<close>

text \<open>
  What the module reaches outside itself: the configured bucket name, the storage client,
  \<^verbatim>\<open>code_analyzer.analyze\<close>, \<^verbatim>\<open>test_generator.generate\<close>, the clock and the
  interpreter's \<^verbatim>\<open>str(e)\<close>. Each is a parameter; a call either returns a value or
  raises.
\<close>

record env =
  BUCKET_NAME :: string
  download_as_text :: "string \<Rightarrow> string \<Rightarrow> py_exn + string"
  upload_from_string :: "string \<Rightarrow> string \<Rightarrow> pyval \<Rightarrow> py_exn + unit"
  analyze :: "pyval \<Rightarrow> pyval \<Rightarrow> py_exn + pyval"
  generate :: "pyval \<Rightarrow> pyval \<Rightarrow> pyval \<Rightarrow> pyval \<Rightarrow> pyval \<Rightarrow> py_exn + pyval"
  now :: datetime
  str_exc :: "py_exn \<Rightarrow> string"

text \<open>
  One event per call that leaves the module, in the order the calls are made:
  a blob read (bucket, blob name), an analyzer call (source, language), a generator call
  (source, analysis, language, test types, framework), a blob write (bucket, blob name,
  content).
\<close>

datatype event =
    StorageRead string string
  | AnalyzeCall pyval pyval
  | GenerateCall pyval pyval pyval pyval pyval
  | StorageWrite string string pyval

record response =
  body :: pyval
  status :: nat

text \<open>
  How a statement inside a handler's \<^verbatim>\<open>try\<close> block ends: it raises, it returns a
  response from the handler, or it goes on with a value. A computation is such an ending
  together with the events it produced.
\<close>

datatype 'a flow = Raise py_exn | Return response | Next 'a

type_synonym 'a io = "'a flow \<times> event list"

definition andthen :: "'a io \<Rightarrow> ('a \<Rightarrow> 'b io) \<Rightarrow> 'b io" where
  "andthen m f =
     (case m of
        (Raise e, t) \<Rightarrow> (Raise e, t)
      | (Return r, t) \<Rightarrow> (Return r, t)
      | (Next x, t) \<Rightarrow> (case f x of (y, t') \<Rightarrow> (y, t @ t')))"

definition pure :: "py_exn + 'a \<Rightarrow> 'a io" where
  "pure r = (case r of Inl e \<Rightarrow> (Raise e, []) | Inr x \<Rightarrow> (Next x, []))"

definition call :: "event \<Rightarrow> py_exn + 'a \<Rightarrow> 'a io" where
  "call ev r = (case r of Inl e \<Rightarrow> (Raise e, [ev]) | Inr x \<Rightarrow> (Next x, [ev]))"

definition jsonify :: "(string \<times> pyval) list \<Rightarrow> pyval" where
  "jsonify kvs = PDict kvs"

section \<open>The service\<close>

record request =
  get_json :: "py_exn + pyval"

definition health_check :: "response" where
  "health_check =
     \<lparr>body = jsonify [(''status'', PStr ''healthy''), (''service'', PStr ''ai-test-generator'')],
      status = 200\<rparr>"

definition download_from_gcs :: "env \<Rightarrow> pyval \<Rightarrow> pyval io" where
  "download_from_gcs env gcs_path =
     (case gcs_path of
        PStr s \<Rightarrow>
          if \<not> prefix ''gs://'' s then (Raise (ValueError ''GCS path must start with gs://''), [])
          else
            let path_parts = split_once (CHR ''/'') (drop 5 s) in
            andthen (pure (py_index path_parts 0)) (\<lambda>bucket_name.
            andthen (pure (py_index path_parts 1)) (\<lambda>blob_name.
            andthen (call (StorageRead bucket_name blob_name)
                       (download_as_text env bucket_name blob_name)) (\<lambda>text.
            (Next (PStr text), []))))
      | v \<Rightarrow> (Raise (AttributeError (type_name v) ''startswith''), []))"

definition upload_to_gcs :: "env \<Rightarrow> pyval \<Rightarrow> string \<Rightarrow> pyval io" where
  "upload_to_gcs env content destination_path =
     andthen (call (StorageWrite (BUCKET_NAME env) destination_path content)
                (upload_from_string env (BUCKET_NAME env) destination_path content)) (\<lambda>_.
     (Next (PStr (''gs://'' @ BUCKET_NAME env @ ''/'' @ destination_path)), []))"

text \<open>Lines 96 to 110 of \<^verbatim>\<open>generate_tests\<close>: the response dictionary.\<close>

definition prepare_response ::
  "pyval \<Rightarrow> pyval \<Rightarrow> pyval \<Rightarrow> pyval \<Rightarrow> pyval \<Rightarrow> string \<Rightarrow> pyval io" where
  "prepare_response analysis_result generated_tests gcs_url test_types framework timestamp =
     andthen (pure (py_getitem generated_tests ''test_code'')) (\<lambda>test_code.
     andthen (pure (py_getitem analysis_result ''analysis'')) (\<lambda>analysis.
     andthen (pure (py_getitem analysis ''functions'')) (\<lambda>functions.
     andthen (pure (py_len functions)) (\<lambda>functions_analyzed.
     andthen (pure (py_getitem generated_tests ''test_count'')) (\<lambda>test_count.
     andthen (pure (py_getitem analysis_result ''analysis'')) (\<lambda>analysis'.
     andthen (pure (py_getitem analysis' ''summary'')) (\<lambda>summary.
     (Next (jsonify
        [(''success'', PBool True),
         (''generated_tests'', test_code),
         (''gcs_path'', gcs_url),
         (''metadata'', PDict
            [(''functions_analyzed'', functions_analyzed),
             (''test_cases_generated'', test_count),
             (''test_types'', test_types),
             (''framework'', framework),
             (''timestamp'', PStr timestamp)]),
         (''analysis_summary'', summary)]), []))))))))"

text \<open>
  The \<^verbatim>\<open>try\<close> block of \<^verbatim>\<open>generate_tests\<close>, cut at the steps its comments
  name. Each step runs from its comment to the end of the block.

  Step 3 (lines 91 to 110): save the results and answer.
\<close>

definition step3_save :: "env \<Rightarrow> pyval \<Rightarrow> pyval \<Rightarrow> pyval \<Rightarrow> pyval \<Rightarrow> response io" where
  "step3_save env analysis_result generated_tests test_types framework =
     (let timestamp = strftime (now env);
          output_path = ''generated_tests/'' @ timestamp @ ''_tests.py'' in
      andthen (pure (py_getitem generated_tests ''test_code'')) (\<lambda>test_code.
      andthen (upload_to_gcs env test_code output_path) (\<lambda>gcs_url.
      andthen (prepare_response analysis_result generated_tests gcs_url test_types framework
                 timestamp) (\<lambda>response.
      (Return \<lparr>body = response, status = 200\<rparr>, [])))))"

text \<open>Step 2 (lines 82 to 88): generate the test cases.\<close>

definition step2_generate ::
  "env \<Rightarrow> pyval \<Rightarrow> pyval \<Rightarrow> pyval \<Rightarrow> pyval \<Rightarrow> pyval \<Rightarrow> response io" where
  "step2_generate env source_code analysis_result language test_types framework =
     andthen (pure (py_getitem analysis_result ''analysis'')) (\<lambda>analysis.
     andthen (call (GenerateCall source_code analysis language test_types framework)
                (generate env source_code analysis language test_types framework))
             (\<lambda>generated_tests.
     step3_save env analysis_result generated_tests test_types framework))"

text \<open>Step 1 (lines 73 to 79): analyze the source code.\<close>

definition step1_analyze :: "env \<Rightarrow> pyval \<Rightarrow> pyval \<Rightarrow> pyval \<Rightarrow> pyval \<Rightarrow> response io" where
  "step1_analyze env source_code language test_types framework =
     andthen (call (AnalyzeCall source_code language)
                (analyze env source_code language)) (\<lambda>analysis_result.
     andthen (pure (py_getitem analysis_result ''success'')) (\<lambda>success.
     if \<not> truthy success then
       andthen (pure (py_get analysis_result ''error'' PNone)) (\<lambda>details.
       (Return \<lparr>body = jsonify [(''error'', PStr ''Code analysis failed''), (''details'', details)],
                status = 400\<rparr>, []))
     else step2_generate env source_code analysis_result language test_types framework))"

text \<open>Lines 52 to 70: the body, its validation, the source and the options.\<close>

definition generate_tests_try :: "env \<Rightarrow> request \<Rightarrow> response io" where
  "generate_tests_try env request =
     andthen (pure (get_json request)) (\<lambda>data.
     if \<not> truthy data then
       (Return \<lparr>body = jsonify [(''error'', PStr ''Request body is required'')], status = 400\<rparr>, [])
     else
     andthen (pure (py_get data ''source_code'' PNone)) (\<lambda>source_code.
     andthen (pure (py_get data ''gcs_path'' PNone)) (\<lambda>gcs_path.
     if \<not> truthy source_code \<and> \<not> truthy gcs_path then
       (Return \<lparr>body = jsonify [(''error'', PStr ''Either source_code or gcs_path is required'')],
                status = 400\<rparr>, [])
     else
     andthen (if truthy gcs_path then download_from_gcs env gcs_path
              else (Next source_code, [])) (\<lambda>source_code.
     andthen (pure (py_get data ''language'' (PStr ''python''))) (\<lambda>language.
     andthen (pure (py_get data ''test_types''
                      (PList [PStr ''unit'', PStr ''edge'', PStr ''negative'']))) (\<lambda>test_types.
     andthen (pure (py_get data ''framework'' (PStr ''pytest''))) (\<lambda>framework.
     step1_analyze env source_code language test_types framework)))))))"

text \<open>The handler: the \<^verbatim>\<open>try\<close> block under its \<^verbatim>\<open>except Exception\<close> clause.\<close>

definition generate_tests :: "env \<Rightarrow> request \<Rightarrow> response \<times> event list" where
  "generate_tests env request =
     (case generate_tests_try env request of
        (Raise e, t) \<Rightarrow>
          (\<lparr>body = jsonify [(''error'', PStr ''Internal server error''),
                            (''details'', PStr (str_exc env e))],
            status = 500\<rparr>, t)
      | (Return r, t) \<Rightarrow> (r, t)
      | (Next r, t) \<Rightarrow> (r, t))"

definition analyze_code_try :: "env \<Rightarrow> request \<Rightarrow> response io" where
  "analyze_code_try env request =
     andthen (pure (get_json request)) (\<lambda>data.
     andthen (pure (py_get data ''source_code'' PNone)) (\<lambda>source_code.
     andthen (pure (py_get data ''gcs_path'' PNone)) (\<lambda>gcs_path.
     andthen (if truthy gcs_path then download_from_gcs env gcs_path
              else (Next source_code, [])) (\<lambda>source_code.
     if \<not> truthy source_code then
       (Return \<lparr>body = jsonify [(''error'', PStr ''source_code or gcs_path is required'')],
                status = 400\<rparr>, [])
     else
     andthen (pure (py_get data ''language'' (PStr ''python''))) (\<lambda>language.
     andthen (call (AnalyzeCall source_code language)
                (analyze env source_code language)) (\<lambda>analysis_result.
     (Return \<lparr>body = analysis_result, status = 200\<rparr>, [])))))))"

definition analyze_code :: "env \<Rightarrow> request \<Rightarrow> response \<times> event list" where
  "analyze_code env request =
     (case analyze_code_try env request of
        (Raise e, t) \<Rightarrow> (\<lparr>body = jsonify [(''error'', PStr (str_exc env e))], status = 500\<rparr>, t)
      | (Return r, t) \<Rightarrow> (r, t)
      | (Next r, t) \<Rightarrow> (r, t))"

subsection \<open>A sample deployment\<close>

text \<open>
  A concrete environment to run the handlers on: a bucket holding one Python file and one
  empty file, an analyzer that knows Python only, a generator that knows pytest only, a
  fixed clock, and the text CPython 3.11 gives for the exceptions.
\<close>

definition quoted :: "string \<Rightarrow> string" where
  "quoted s = [CHR 0x27] @ s @ [CHR 0x27]"

definition sample_str :: "py_exn \<Rightarrow> string" where
  "sample_str e =
     (case e of
        AttributeError t a \<Rightarrow> quoted t @ '' object has no attribute '' @ quoted a
      | TypeError t op \<Rightarrow>
          if op = ''len'' then ''object of type '' @ quoted t @ '' has no len()''
          else if t = ''str'' then ''string indices must be integers, not '' @ quoted ''str''
          else if t = ''list'' then ''list indices must be integers or slices, not str''
          else quoted t @ '' object is not subscriptable''
      | KeyError k \<Rightarrow> quoted k
      | IndexError \<Rightarrow> ''list index out of range''
      | ValueError m \<Rightarrow> m
      | External m \<Rightarrow> m)"

definition sample_analysis :: pyval where
  "sample_analysis =
     PDict [(''functions'', PList [PDict [(''name'', PStr ''add''),
                                             (''params'', PList [PStr ''a'', PStr ''b''])]]),
            (''summary'', PStr ''1 function'')]"

definition sample_tests :: pyval where
  "sample_tests =
     PDict [(''test_code'', PStr ''def test_add(): assert add(1, 2) == 3''),
            (''test_count'', PInt 1)]"

definition sample_env :: env where
  "sample_env =
     \<lparr>BUCKET_NAME = ''ai-test-generator-bucket'',
      download_as_text = (\<lambda>b k.
        if b = ''src-bucket'' \<and> k = ''add.py'' then Inr ''def add(a, b): return a + b''
        else if b = ''src-bucket'' \<and> k = ''empty.py'' then Inr []
        else Inl (External ''404 blob not found'')),
      upload_from_string = (\<lambda>b k c. Inr ()),
      analyze = (\<lambda>src lang.
        if lang = PStr ''python''
        then Inr (PDict [(''success'', PBool True), (''analysis'', sample_analysis)])
        else Inr (PDict [(''success'', PBool False), (''error'', PStr ''Unsupported language'')])),
      generate = (\<lambda>src an lang tt fw.
        if fw = PStr ''pytest'' then Inr sample_tests
        else Inl (External ''incompatible framework'')),
      now = \<lparr>year = 2024, month = 3, day = 9, hour = 14, minute = 5, second = 7\<rparr>,
      str_exc = sample_str\<rparr>"

text \<open>
  Two requests to the sample deployment, with the response and the trace each gets from
  \<^verbatim>\<open>/generate-tests\<close>: one carries both an inline source and a storage path, one asks
  for a framework the sample generator refuses.
\<close>

definition both_request :: request where
  "both_request =
     \<lparr>get_json = Inr (PDict [(''source_code'', PStr ''x = 1''),
                              (''gcs_path'', PStr ''gs://src-bucket/add.py'')])\<rparr>"

definition both_response :: response where
  "both_response =
     \<lparr>body = PDict
        [(''success'', PBool True),
         (''generated_tests'', PStr ''def test_add(): assert add(1, 2) == 3''),
         (''gcs_path'',
          PStr ''gs://ai-test-generator-bucket/generated_tests/20240309_140507_tests.py''),
         (''metadata'', PDict
            [(''functions_analyzed'', PInt 1),
             (''test_cases_generated'', PInt 1),
             (''test_types'', PList [PStr ''unit'', PStr ''edge'', PStr ''negative'']),
             (''framework'', PStr ''pytest''),
             (''timestamp'', PStr ''20240309_140507'')]),
         (''analysis_summary'', PStr ''1 function'')],
      status = 200\<rparr>"

definition both_trace :: "event list" where
  "both_trace =
     [StorageRead ''src-bucket'' ''add.py'',
      AnalyzeCall (PStr ''def add(a, b): return a + b'') (PStr ''python''),
      GenerateCall (PStr ''def add(a, b): return a + b'') sample_analysis (PStr ''python'')
        (PList [PStr ''unit'', PStr ''edge'', PStr ''negative'']) (PStr ''pytest''),
      StorageWrite ''ai-test-generator-bucket'' ''generated_tests/20240309_140507_tests.py''
        (PStr ''def test_add(): assert add(1, 2) == 3'')]"

definition junit_request :: request where
  "junit_request =
     \<lparr>get_json = Inr (PDict [(''source_code'', PStr ''def add(a, b): return a + b''),
                              (''framework'', PStr ''junit'')])\<rparr>"

definition junit_response :: response where
  "junit_response =
     \<lparr>body = PDict [(''error'', PStr ''Internal server error''),
                    (''details'', PStr ''incompatible framework'')],
      status = 500\<rparr>"

definition junit_trace :: "event list" where
  "junit_trace =
     [AnalyzeCall (PStr ''def add(a, b): return a + b'') (PStr ''python''),
      GenerateCall (PStr ''def add(a, b): return a + b'') sample_analysis (PStr ''python'')
        (PList [PStr ''unit'', PStr ''edge'', PStr ''negative'']) (PStr ''junit'')]"

section \<open>How a run of the handlers unfolds\<close>

lemma pure_eq_Next [simp]: "pure r = (Next x, t) \<longleftrightarrow> r = Inr x \<and> t = []"
  by (auto simp: pure_def split: sum.splits)
lemma pure_eq_Return [simp]: "pure r \<noteq> (Return x, t)"
  by (auto simp: pure_def split: sum.splits)
lemma pure_eq_Raise [simp]: "pure r = (Raise e, t) \<longleftrightarrow> r = Inl e \<and> t = []"
  by (auto simp: pure_def split: sum.splits)
lemma call_eq_Next [simp]: "call ev r = (Next x, t) \<longleftrightarrow> r = Inr x \<and> t = [ev]"
  by (auto simp: call_def split: sum.splits)
lemma call_eq_Return [simp]: "call ev r \<noteq> (Return x, t)"
  by (auto simp: call_def split: sum.splits)
lemma call_eq_Raise [simp]: "call ev r = (Raise e, t) \<longleftrightarrow> r = Inl e \<and> t = [ev]"
  by (auto simp: call_def split: sum.splits)

lemma andthen_eq_Return:
  "andthen m f = (Return r, t) \<longleftrightarrow>
     m = (Return r, t) \<or> (\<exists>x t1 t2. m = (Next x, t1) \<and> f x = (Return r, t2) \<and> t = t1 @ t2)"
  by (cases m; cases "fst m") (auto simp: andthen_def split: prod.splits)

lemma andthen_eq_Raise:
  "andthen m f = (Raise e, t) \<longleftrightarrow>
     m = (Raise e, t) \<or> (\<exists>x t1 t2. m = (Next x, t1) \<and> f x = (Raise e, t2) \<and> t = t1 @ t2)"
  by (cases m; cases "fst m") (auto simp: andthen_def split: prod.splits)

lemma andthen_eq_Next:
  "andthen m f = (Next y, t) \<longleftrightarrow>
     (\<exists>x t1 t2. m = (Next x, t1) \<and> f x = (Next y, t2) \<and> t = t1 @ t2)"
  by (cases m; cases "fst m") (auto simp: andthen_def split: prod.splits)

lemmas andthen_eqs = andthen_eq_Return andthen_eq_Raise andthen_eq_Next

lemma split_once_no_sep: "c \<notin> set s \<Longrightarrow> split_once c s = [s]"
proof -
  assume "c \<notin> set s"
  then have "dropWhile (\<lambda>x. x \<noteq> c) s = []" by (induction s) auto
  then show ?thesis unfolding split_once_def by (simp only: list.case)
qed

lemma download_Next:
  "download_from_gcs env p = (Next v, t) \<Longrightarrow>
   \<exists>b k txt. download_as_text env b k = Inr txt \<and> v = PStr txt \<and> t = [StorageRead b k]"
  by (cases p) (auto simp: download_from_gcs_def andthen_eqs Let_def split: if_splits)

lemma download_Raise:
  "download_from_gcs env p = (Raise e, t) \<Longrightarrow>
   t = [] \<or> (\<exists>b k. download_as_text env b k = Inl e \<and> t = [StorageRead b k])"
  by (cases p) (auto simp: download_from_gcs_def andthen_eqs Let_def split: if_splits)

lemma download_Return: "download_from_gcs env p \<noteq> (Return r, t)"
  by (cases p) (auto simp: download_from_gcs_def andthen_eqs Let_def split: if_splits)

lemma prepare_response_Next:
  "prepare_response ar g url tt fw ts = (Next resp, t) \<Longrightarrow>
   t = [] \<and> (\<exists>tc an fs n cnt sm.
      py_getitem g ''test_code'' = Inr tc \<and> py_getitem ar ''analysis'' = Inr an \<and>
      py_getitem an ''functions'' = Inr fs \<and> py_len fs = Inr n \<and>
      py_getitem g ''test_count'' = Inr cnt \<and> py_getitem an ''summary'' = Inr sm \<and>
      resp = PDict
        [(''success'', PBool True),
         (''generated_tests'', tc),
         (''gcs_path'', url),
         (''metadata'', PDict
            [(''functions_analyzed'', n),
             (''test_cases_generated'', cnt),
             (''test_types'', tt),
             (''framework'', fw),
             (''timestamp'', PStr ts)]),
         (''analysis_summary'', sm)])"
  by (auto simp: prepare_response_def andthen_eqs jsonify_def)

lemma prepare_response_Return: "prepare_response ar g url tt fw ts \<noteq> (Return r, t)"
  by (auto simp: prepare_response_def andthen_eqs)

lemma prepare_response_Raise: "prepare_response ar g url tt fw ts = (Raise e, t) \<Longrightarrow> t = []"
  by (auto simp: prepare_response_def andthen_eqs)

lemma step3_save_run:
  assumes "step3_save env ar g tt fw = (fl, t)"
  shows "(\<exists>e. py_getitem g ''test_code'' = Inl e \<and> fl = Raise e \<and> t = []) \<or>
         (\<exists>c. py_getitem g ''test_code'' = Inr c \<and>
            t = [StorageWrite (BUCKET_NAME env)
                   (''generated_tests/'' @ strftime (now env) @ ''_tests.py'') c] \<and>
            ((\<exists>e. fl = Raise e) \<or>
             (\<exists>resp. fl = Return \<lparr>body = resp, status = 200\<rparr> \<and>
                upload_from_string env (BUCKET_NAME env)
                  (''generated_tests/'' @ strftime (now env) @ ''_tests.py'') c = Inr () \<and>
                prepare_response ar g
                  (PStr (''gs://'' @ BUCKET_NAME env @ ''/'' @
                         ''generated_tests/'' @ strftime (now env) @ ''_tests.py''))
                  tt fw (strftime (now env)) = (Next resp, []))))"
  using assms
  by (cases fl)
     (auto simp: step3_save_def upload_to_gcs_def andthen_eqs Let_def prepare_response_Return
           dest: prepare_response_Next prepare_response_Raise)

lemma step2_generate_run:
  assumes "step2_generate env src ar lang tt fw = (fl, t)"
  shows "(\<exists>e. py_getitem ar ''analysis'' = Inl e \<and> fl = Raise e \<and> t = []) \<or>
         (\<exists>an. py_getitem ar ''analysis'' = Inr an \<and>
            ((\<exists>e. generate env src an lang tt fw = Inl e \<and> fl = Raise e \<and>
                  t = [GenerateCall src an lang tt fw]) \<or>
             (\<exists>g t3. generate env src an lang tt fw = Inr g \<and>
                  step3_save env ar g tt fw = (fl, t3) \<and>
                  t = GenerateCall src an lang tt fw # t3)))"
  using assms
  by (cases fl) (auto simp: step2_generate_def andthen_eqs)

lemma step1_analyze_run:
  assumes "step1_analyze env src lang tt fw = (fl, t)"
  shows "(\<exists>e. analyze env src lang = Inl e \<and> fl = Raise e \<and> t = [AnalyzeCall src lang]) \<or>
         (\<exists>ar. analyze env src lang = Inr ar \<and>
            ((\<exists>e. py_getitem ar ''success'' = Inl e \<and> fl = Raise e \<and>
                  t = [AnalyzeCall src lang]) \<or>
             (\<exists>s. py_getitem ar ''success'' = Inr s \<and> \<not> truthy s \<and>
                  t = [AnalyzeCall src lang] \<and>
                  ((\<exists>e. fl = Raise e) \<or>
                   (\<exists>d. fl = Return \<lparr>body = jsonify [(''error'', PStr ''Code analysis failed''),
                                                      (''details'', d)],
                                     status = 400\<rparr>))) \<or>
             (\<exists>s t2. py_getitem ar ''success'' = Inr s \<and> truthy s \<and>
                  step2_generate env src ar lang tt fw = (fl, t2) \<and>
                  t = AnalyzeCall src lang # t2)))"
  using assms
  by (cases fl) (auto simp: step1_analyze_def andthen_eqs split: if_splits)

lemma py_get_dict: "py_get data k d = Inr v \<Longrightarrow> py_get data k' d' \<noteq> Inl e"
  by (cases data) auto

lemma options_run:
  assumes "andthen (pure (py_get data ''language'' (PStr ''python''))) (\<lambda>language.
     andthen (pure (py_get data ''test_types''
                      (PList [PStr ''unit'', PStr ''edge'', PStr ''negative'']))) (\<lambda>test_types.
     andthen (pure (py_get data ''framework'' (PStr ''pytest''))) (\<lambda>framework.
     step1_analyze env src language test_types framework))) = (fl, t)"
    and "py_get data k d = Inr v"
  shows "\<exists>lang tt fw.
            py_get data ''language'' (PStr ''python'') = Inr lang \<and>
            py_get data ''test_types'' (PList [PStr ''unit'', PStr ''edge'', PStr ''negative''])
              = Inr tt \<and>
            py_get data ''framework'' (PStr ''pytest'') = Inr fw \<and>
            step1_analyze env src lang tt fw = (fl, t)"
  using assms by (cases fl) (auto simp: andthen_eqs py_get_dict)

lemma resolve_run:
  assumes "andthen (if truthy gp then download_from_gcs env gp else (Next sc, [])) f = (fl, t)"
  shows "(t = [] \<and> (\<exists>e. fl = Raise e)) \<or>
         (\<exists>b k e. download_as_text env b k = Inl e \<and> fl = Raise e \<and> t = [StorageRead b k]) \<or>
         (\<exists>src t1 t2. (if truthy gp then download_from_gcs env gp = (Next src, t1)
                        else src = sc \<and> t1 = []) \<and> f src = (fl, t2) \<and> t = t1 @ t2)"
  using assms
  by (cases fl) (auto simp: andthen_eqs download_Return split: if_splits dest: download_Raise)

lemma andthen_pure_Inr: "andthen (pure (Inr x)) f = f x"
  by (cases "f x") (simp add: andthen_def pure_def)

lemma andthen_pure_Inl: "andthen (pure (Inl e)) f = (Raise e, [])"
  by (simp add: andthen_def pure_def)

lemma generate_tests_try_run:
  assumes run: "generate_tests_try env request = (fl, t)"
  shows "(t = [] \<and> (\<exists>e. fl = Raise e)) \<or>
         (t = [] \<and> (\<exists>data. get_json request = Inr data \<and> \<not> truthy data) \<and>
            fl = Return \<lparr>body = jsonify [(''error'', PStr ''Request body is required'')],
                         status = 400\<rparr>) \<or>
         (t = [] \<and>
            (\<exists>data sc gp. get_json request = Inr data \<and> truthy data \<and>
               py_get data ''source_code'' PNone = Inr sc \<and>
               py_get data ''gcs_path'' PNone = Inr gp \<and> \<not> truthy sc \<and> \<not> truthy gp) \<and>
            fl = Return \<lparr>body = jsonify [(''error'',
                                          PStr ''Either source_code or gcs_path is required'')],
                         status = 400\<rparr>) \<or>
         (\<exists>b k e. download_as_text env b k = Inl e \<and> fl = Raise e \<and> t = [StorageRead b k]) \<or>
         (\<exists>data sc gp src lang tt fw t1 t2.
            get_json request = Inr data \<and> truthy data \<and>
            py_get data ''source_code'' PNone = Inr sc \<and>
            py_get data ''gcs_path'' PNone = Inr gp \<and> (truthy sc \<or> truthy gp) \<and>
            (if truthy gp then download_from_gcs env gp = (Next src, t1)
             else src = sc \<and> t1 = []) \<and>
            py_get data ''language'' (PStr ''python'') = Inr lang \<and>
            py_get data ''test_types'' (PList [PStr ''unit'', PStr ''edge'', PStr ''negative''])
              = Inr tt \<and>
            py_get data ''framework'' (PStr ''pytest'') = Inr fw \<and>
            step1_analyze env src lang tt fw = (fl, t2) \<and> t = t1 @ t2)"
    (is "?A \<or> ?B \<or> ?C \<or> ?D \<or> ?E")
proof (cases "get_json request")
  case (Inl e)
  with run have ?A by (auto simp: generate_tests_try_def andthen_pure_Inl)
  then show ?thesis by blast
next
  case data: (Inr data)
  show ?thesis
  proof (cases "truthy data")
    case False
    with run data have ?B by (auto simp: generate_tests_try_def andthen_pure_Inr)
    then show ?thesis by blast
  next
    case td: True
    show ?thesis
    proof (cases "py_get data ''source_code'' PNone")
      case (Inl e)
      with run data td have ?A by (auto simp: generate_tests_try_def andthen_pure_Inr andthen_pure_Inl)
      then show ?thesis by blast
    next
      case sc: (Inr sc)
      show ?thesis
      proof (cases "py_get data ''gcs_path'' PNone")
        case (Inl e)
        with run data td sc have ?A
          by (auto simp: generate_tests_try_def andthen_pure_Inr andthen_pure_Inl)
        then show ?thesis by blast
      next
        case gp: (Inr gp)
        show ?thesis
        proof (cases "\<not> truthy sc \<and> \<not> truthy gp")
          case True
          with run data td sc gp have ?C
            by (auto simp: generate_tests_try_def andthen_pure_Inr)
          then show ?thesis by blast
        next
          case False
          with run data td sc gp
          have "andthen (if truthy gp then download_from_gcs env gp else (Next sc, []))
                  (\<lambda>src. andthen (pure (py_get data ''language'' (PStr ''python''))) (\<lambda>language.
                     andthen (pure (py_get data ''test_types''
                        (PList [PStr ''unit'', PStr ''edge'', PStr ''negative'']))) (\<lambda>test_types.
                     andthen (pure (py_get data ''framework'' (PStr ''pytest''))) (\<lambda>framework.
                     step1_analyze env src language test_types framework)))) = (fl, t)"
            by (simp add: generate_tests_try_def andthen_pure_Inr)
          from resolve_run [OF this] consider
              (early) "?A"
            | (read) "?D"
            | (resolved) src t1 t2 where
                "if truthy gp then download_from_gcs env gp = (Next src, t1)
                 else src = sc \<and> t1 = []"
                "andthen (pure (py_get data ''language'' (PStr ''python''))) (\<lambda>language.
                     andthen (pure (py_get data ''test_types''
                        (PList [PStr ''unit'', PStr ''edge'', PStr ''negative'']))) (\<lambda>test_types.
                     andthen (pure (py_get data ''framework'' (PStr ''pytest''))) (\<lambda>framework.
                     step1_analyze env src language test_types framework))) = (fl, t2)"
                "t = t1 @ t2"
            by blast
          then show ?thesis
          proof cases
            case early
            then show ?thesis by blast
          next
            case read
            then show ?thesis by blast
          next
            case resolved
            from options_run [OF resolved(2) sc] obtain lang tt fw where
                "py_get data ''language'' (PStr ''python'') = Inr lang"
                "py_get data ''test_types''
                   (PList [PStr ''unit'', PStr ''edge'', PStr ''negative'']) = Inr tt"
                "py_get data ''framework'' (PStr ''pytest'') = Inr fw"
                "step1_analyze env src lang tt fw = (fl, t2)"
              by blast
            with data td sc gp False resolved(1,3) have ?E by blast
            then show ?thesis by blast
          qed
        qed
      qed
    qed
  qed
qed

lemma pipeline_run:
  assumes run: "step1_analyze env src lang tt fw = (fl, t)"
  shows "(t = [AnalyzeCall src lang] \<and>
            ((\<exists>e. fl = Raise e) \<or>
             (\<exists>ar s d. analyze env src lang = Inr ar \<and> py_getitem ar ''success'' = Inr s \<and>
                \<not> truthy s \<and>
                fl = Return \<lparr>body = jsonify [(''error'', PStr ''Code analysis failed''),
                                               (''details'', d)],
                              status = 400\<rparr>))) \<or>
         (\<exists>ar s an. analyze env src lang = Inr ar \<and> py_getitem ar ''success'' = Inr s \<and>
            truthy s \<and> py_getitem ar ''analysis'' = Inr an \<and>
            ((\<exists>e. t = [AnalyzeCall src lang, GenerateCall src an lang tt fw] \<and> fl = Raise e \<and>
                (generate env src an lang tt fw = Inl e \<or>
                 (\<exists>g. generate env src an lang tt fw = Inr g \<and>
                       py_getitem g ''test_code'' = Inl e))) \<or>
             (\<exists>g c. generate env src an lang tt fw = Inr g \<and>
                py_getitem g ''test_code'' = Inr c \<and>
                t = [AnalyzeCall src lang, GenerateCall src an lang tt fw,
                     StorageWrite (BUCKET_NAME env)
                       (''generated_tests/'' @ strftime (now env) @ ''_tests.py'') c] \<and>
                ((\<exists>e. fl = Raise e) \<or>
                 (\<exists>resp. fl = Return \<lparr>body = resp, status = 200\<rparr> \<and>
                    upload_from_string env (BUCKET_NAME env)
                      (''generated_tests/'' @ strftime (now env) @ ''_tests.py'') c = Inr () \<and>
                    prepare_response ar g
                      (PStr (''gs://'' @ BUCKET_NAME env @ ''/'' @
                             ''generated_tests/'' @ strftime (now env) @ ''_tests.py''))
                      tt fw (strftime (now env)) = (Next resp, []))))))"
    (is "?stop \<or> ?go")
proof -
  from step1_analyze_run [OF run] consider
      (stop) "?stop"
    | (step2) ar s t2 where "analyze env src lang = Inr ar" "py_getitem ar ''success'' = Inr s"
        "truthy s" "step2_generate env src ar lang tt fw = (fl, t2)"
        "t = AnalyzeCall src lang # t2"
    by blast
  then show ?thesis
  proof cases
    case stop
    then show ?thesis by blast
  next
    case step2
    from step2_generate_run [OF step2(4)] consider
        (no_analysis) e where "fl = Raise e" "t2 = []"
      | (gen_raised) an e where "py_getitem ar ''analysis'' = Inr an"
          "generate env src an lang tt fw = Inl e" "fl = Raise e"
          "t2 = [GenerateCall src an lang tt fw]"
      | (step3) an g t3 where "py_getitem ar ''analysis'' = Inr an"
          "generate env src an lang tt fw = Inr g" "step3_save env ar g tt fw = (fl, t3)"
          "t2 = GenerateCall src an lang tt fw # t3"
      by blast
    then show ?thesis
    proof cases
      case no_analysis
      with step2 have ?stop by blast
      then show ?thesis by blast
    next
      case gen_raised
      with step2 have ?go by blast
      then show ?thesis by blast
    next
      case step3
      from step3_save_run [OF step3(3)] step2 step3(1,2,4) have ?go by blast
      then show ?thesis by blast
    qed
  qed
qed

lemma andthen_Raise: "andthen (Raise e, t) f = (Raise e, t)"
  by (simp add: andthen_def)

lemma step1_analyze_not_Next: "step1_analyze env src lang tt fw \<noteq> (Next x, t)"
proof
  assume "step1_analyze env src lang tt fw = (Next x, t)"
  from pipeline_run [OF this] show False by auto
qed

lemma resolved_trace:
  assumes "if truthy gp then download_from_gcs env gp = (Next src, t1) else src = sc \<and> t1 = []"
  shows "(\<not> truthy gp \<and> src = sc \<and> t1 = []) \<or>
         (truthy gp \<and> (\<exists>b k txt. download_as_text env b k = Inr txt \<and> src = PStr txt \<and>
                          t1 = [StorageRead b k]))"
  using assms by (cases "truthy gp") (auto dest: download_Next)

lemma generate_tests_run_disj:
  assumes run: "generate_tests env request = (r, t)"
  shows "(t = [] \<and> (status r = 400 \<or> status r = 500)) \<or>
         (\<exists>b k e. download_as_text env b k = Inl e \<and> t = [StorageRead b k] \<and>
            r = \<lparr>body = jsonify [(''error'', PStr ''Internal server error''),
                                  (''details'', PStr (str_exc env e))],
                  status = 500\<rparr>) \<or>
         (\<exists>data sc gp src lang tt fw t1 t2 fl.
            get_json request = Inr data \<and> truthy data \<and>
            py_get data ''source_code'' PNone = Inr sc \<and>
            py_get data ''gcs_path'' PNone = Inr gp \<and> (truthy sc \<or> truthy gp) \<and>
            (if truthy gp then download_from_gcs env gp = (Next src, t1)
             else src = sc \<and> t1 = []) \<and>
            py_get data ''language'' (PStr ''python'') = Inr lang \<and>
            py_get data ''test_types'' (PList [PStr ''unit'', PStr ''edge'', PStr ''negative''])
              = Inr tt \<and>
            py_get data ''framework'' (PStr ''pytest'') = Inr fw \<and>
            step1_analyze env src lang tt fw = (fl, t2) \<and> t = t1 @ t2 \<and>
            ((\<exists>e. fl = Raise e \<and>
                  r = \<lparr>body = jsonify [(''error'', PStr ''Internal server error''),
                                        (''details'', PStr (str_exc env e))],
                        status = 500\<rparr>) \<or>
             fl = Return r))"
    (is "?Q \<or> ?R \<or> ?P")
proof -
  obtain fl where tr: "generate_tests_try env request = (fl, t)"
    and r: "r = (case fl of
                   Raise e \<Rightarrow> \<lparr>body = jsonify [(''error'', PStr ''Internal server error''),
                                               (''details'', PStr (str_exc env e))],
                               status = 500\<rparr>
                 | Return r \<Rightarrow> r | Next r \<Rightarrow> r)"
    using run by (cases "generate_tests_try env request"; cases "fst (generate_tests_try env request)")
      (auto simp: generate_tests_def)
  from generate_tests_try_run [OF tr] consider
      (a) e where "t = []" "fl = Raise e"
    | (b) "t = []" "fl = Return \<lparr>body = jsonify [(''error'', PStr ''Request body is required'')],
                         status = 400\<rparr>"
    | (c) "t = []" "fl = Return \<lparr>body = jsonify [(''error'',
                                          PStr ''Either source_code or gcs_path is required'')],
                         status = 400\<rparr>"
    | (d) b k e where "download_as_text env b k = Inl e" "fl = Raise e" "t = [StorageRead b k]"
    | (e) data sc gp src lang tt fw t1 t2 where
        "get_json request = Inr data" "truthy data"
        "py_get data ''source_code'' PNone = Inr sc"
        "py_get data ''gcs_path'' PNone = Inr gp" "truthy sc \<or> truthy gp"
        "if truthy gp then download_from_gcs env gp = (Next src, t1) else src = sc \<and> t1 = []"
        "py_get data ''language'' (PStr ''python'') = Inr lang"
        "py_get data ''test_types'' (PList [PStr ''unit'', PStr ''edge'', PStr ''negative''])
           = Inr tt"
        "py_get data ''framework'' (PStr ''pytest'') = Inr fw"
        "step1_analyze env src lang tt fw = (fl, t2)" "t = t1 @ t2"
    by blast
  then show ?thesis
  proof cases
    case a
    with r have ?Q by simp
    then show ?thesis by blast
  next
    case b
    with r have ?Q by simp
    then show ?thesis by blast
  next
    case c
    with r have ?Q by simp
    then show ?thesis by blast
  next
    case d
    with r have ?R by simp
    then show ?thesis by blast
  next
    case e
    have "(\<exists>e. fl = Raise e \<and>
                  r = \<lparr>body = jsonify [(''error'', PStr ''Internal server error''),
                                        (''details'', PStr (str_exc env e))],
                        status = 500\<rparr>) \<or>
             fl = Return r"
      using r step1_analyze_not_Next [of env src lang tt fw _ t2] e(10) by (cases fl) auto
    with e have ?P by blast
    then show ?thesis by blast
  qed
qed

lemma generate_tests_run [consumes 1, case_names quiet read_failed pipeline]:
  assumes "generate_tests env request = (r, t)"
  obtains
    (quiet) "t = []" "status r = 400 \<or> status r = 500"
  | (read_failed) b k e where
      "download_as_text env b k = Inl e" "t = [StorageRead b k]"
      "r = \<lparr>body = jsonify [(''error'', PStr ''Internal server error''),
                             (''details'', PStr (str_exc env e))],
             status = 500\<rparr>"
  | (pipeline) data sc gp src lang tt fw t1 t2 fl where
      "get_json request = Inr data" "truthy data"
      "py_get data ''source_code'' PNone = Inr sc"
      "py_get data ''gcs_path'' PNone = Inr gp" "truthy sc \<or> truthy gp"
      "if truthy gp then download_from_gcs env gp = (Next src, t1) else src = sc \<and> t1 = []"
      "py_get data ''language'' (PStr ''python'') = Inr lang"
      "py_get data ''test_types'' (PList [PStr ''unit'', PStr ''edge'', PStr ''negative''])
         = Inr tt"
      "py_get data ''framework'' (PStr ''pytest'') = Inr fw"
      "step1_analyze env src lang tt fw = (fl, t2)" "t = t1 @ t2"
      "(\<exists>e. fl = Raise e \<and>
            r = \<lparr>body = jsonify [(''error'', PStr ''Internal server error''),
                                  (''details'', PStr (str_exc env e))],
                  status = 500\<rparr>) \<or>
       fl = Return r"
  using generate_tests_run_disj [OF assms] that by blast

lemma ok_run:
  assumes run: "generate_tests env request = (r, t)" and ok: "status r = 200"
  shows "\<exists>data src lang tt fw ar an g c t1 resp.
           get_json request = Inr data \<and>
           py_get data ''test_types'' (PList [PStr ''unit'', PStr ''edge'', PStr ''negative''])
             = Inr tt \<and>
           py_get data ''framework'' (PStr ''pytest'') = Inr fw \<and>
           analyze env src lang = Inr ar \<and> py_getitem ar ''analysis'' = Inr an \<and>
           generate env src an lang tt fw = Inr g \<and> py_getitem g ''test_code'' = Inr c \<and>
           t = t1 @ [AnalyzeCall src lang, GenerateCall src an lang tt fw,
                     StorageWrite (BUCKET_NAME env)
                       (''generated_tests/'' @ strftime (now env) @ ''_tests.py'') c] \<and>
           r = \<lparr>body = resp, status = 200\<rparr> \<and>
           upload_from_string env (BUCKET_NAME env)
             (''generated_tests/'' @ strftime (now env) @ ''_tests.py'') c = Inr () \<and>
           prepare_response ar g
             (PStr (''gs://'' @ BUCKET_NAME env @ ''/'' @
                    ''generated_tests/'' @ strftime (now env) @ ''_tests.py''))
             tt fw (strftime (now env)) = (Next resp, [])"
  using run
proof (cases rule: generate_tests_run)
  case quiet
  with ok show ?thesis by simp
next
  case (read_failed b k e)
  with ok show ?thesis by simp
next
  case (pipeline data sc gp src lang tt fw t1 t2 fl)
  from pipeline(12) ok have fl: "fl = Return r" by auto
  from pipeline_run [OF pipeline(10)] fl ok
  obtain ar an g c resp where
    "analyze env src lang = Inr ar" "py_getitem ar ''analysis'' = Inr an"
    "generate env src an lang tt fw = Inr g" "py_getitem g ''test_code'' = Inr c"
    "t2 = [AnalyzeCall src lang, GenerateCall src an lang tt fw,
           StorageWrite (BUCKET_NAME env)
             (''generated_tests/'' @ strftime (now env) @ ''_tests.py'') c]"
    "r = \<lparr>body = resp, status = 200\<rparr>"
    "upload_from_string env (BUCKET_NAME env)
       (''generated_tests/'' @ strftime (now env) @ ''_tests.py'') c = Inr ()"
    "prepare_response ar g
             (PStr (''gs://'' @ BUCKET_NAME env @ ''/'' @
                    ''generated_tests/'' @ strftime (now env) @ ''_tests.py''))
             tt fw (strftime (now env)) = (Next resp, [])"
    by (elim disjE exE conjE) auto
  with pipeline(1,8,9,11) show ?thesis by blast
qed

lemma analyze_code_try_run:
  assumes run: "analyze_code_try env request = (fl, t)"
  shows "t = [] \<or> (\<exists>b k e. download_as_text env b k = Inl e \<and> t = [StorageRead b k]) \<or>
         (\<exists>b k. download_as_text env b k = Inr [] \<and> t = [StorageRead b k] \<and>
            fl = Return \<lparr>body = jsonify [(''error'', PStr ''source_code or gcs_path is required'')],
                           status = 400\<rparr>) \<or>
         (\<exists>data sc gp src lang t1.
            get_json request = Inr data \<and>
            py_get data ''source_code'' PNone = Inr sc \<and>
            py_get data ''gcs_path'' PNone = Inr gp \<and>
            (if truthy gp then download_from_gcs env gp = (Next src, t1)
             else src = sc \<and> t1 = []) \<and> truthy src \<and>
            py_get data ''language'' (PStr ''python'') = Inr lang \<and>
            t = t1 @ [AnalyzeCall src lang] \<and>
            ((\<exists>e. analyze env src lang = Inl e \<and> fl = Raise e) \<or>
             (\<exists>ar. analyze env src lang = Inr ar \<and> fl = Return \<lparr>body = ar, status = 200\<rparr>)))"
    (is "?A \<or> ?B \<or> ?C \<or> ?D")
proof (cases "get_json request")
  case (Inl e)
  with run have ?A by (auto simp: analyze_code_try_def andthen_pure_Inl)
  then show ?thesis by blast
next
  case data: (Inr data)
  show ?thesis
  proof (cases "py_get data ''source_code'' PNone")
    case (Inl e)
    with run data have ?A by (auto simp: analyze_code_try_def andthen_pure_Inr andthen_pure_Inl)
    then show ?thesis by blast
  next
    case sc: (Inr sc)
    show ?thesis
    proof (cases "py_get data ''gcs_path'' PNone")
      case (Inl e)
      with run data sc have ?A
        by (auto simp: analyze_code_try_def andthen_pure_Inr andthen_pure_Inl)
      then show ?thesis by blast
    next
      case gp: (Inr gp)
      with run data sc
      have "andthen (if truthy gp then download_from_gcs env gp else (Next sc, []))
              (\<lambda>source_code.
                 if \<not> truthy source_code then
                   (Return \<lparr>body = jsonify [(''error'',
                                 PStr ''source_code or gcs_path is required'')],
                            status = 400\<rparr>, [])
                 else
                 andthen (pure (py_get data ''language'' (PStr ''python''))) (\<lambda>language.
                 andthen (call (AnalyzeCall source_code language)
                            (analyze env source_code language)) (\<lambda>analysis_result.
                 (Return \<lparr>body = analysis_result, status = 200\<rparr>, [])))) = (fl, t)"
        by (simp add: analyze_code_try_def andthen_pure_Inr)
      from resolve_run [OF this] consider
          (early) "?A"
        | (read) "?B"
        | (resolved) src t1 t2 where
            "if truthy gp then download_from_gcs env gp = (Next src, t1)
             else src = sc \<and> t1 = []"
            "(if \<not> truthy src then
                   (Return \<lparr>body = jsonify [(''error'',
                                 PStr ''source_code or gcs_path is required'')],
                            status = 400\<rparr>, [])
                 else
                 andthen (pure (py_get data ''language'' (PStr ''python''))) (\<lambda>language.
                 andthen (call (AnalyzeCall src language)
                            (analyze env src language)) (\<lambda>analysis_result.
                 (Return \<lparr>body = analysis_result, status = 200\<rparr>, [])))) = (fl, t2)"
            "t = t1 @ t2"
        by blast
      then show ?thesis
      proof cases
        case early
        then show ?thesis by blast
      next
        case read
        then show ?thesis by blast
      next
        case resolved
        show ?thesis
        proof (cases "truthy src")
          case False
          with resolved have "?A \<or> ?C"
            by (cases "truthy gp") (auto dest: download_Next)
          then show ?thesis by blast
        next
          case True
          with resolved(2) py_get_dict [OF sc, of "''language''" "PStr ''python''"]
          have "\<exists>lang. py_get data ''language'' (PStr ''python'') = Inr lang \<and>
                  t2 = [AnalyzeCall src lang] \<and>
                  ((\<exists>e. analyze env src lang = Inl e \<and> fl = Raise e) \<or>
                   (\<exists>ar. analyze env src lang = Inr ar \<and>
                         fl = Return \<lparr>body = ar, status = 200\<rparr>))"
            by (cases fl) (auto simp: andthen_eqs)
          with data sc gp resolved(1,3) True have ?D by blast
          then show ?thesis by blast
        qed
      qed
    qed
  qed
qed

subsection \<open>The timestamp\<close>

lemma below_ten: "(k::nat) < 10 \<Longrightarrow> k \<in> {0, 1, 2, 3, 4, 5, 6, 7, 8, 9}"
  by auto

lemma digit_value_digit: "digit_value (digit n) = n mod 10"
proof -
  have "n mod 10 < 10" by simp
  then have "n mod 10 \<in> {0, 1, 2, 3, 4, 5, 6, 7, 8, 9}" by (rule below_ten)
  then show ?thesis by (auto simp: digit_value_def digit_def)
qed

lemma is_digit_digit: "is_digit (digit n)"
proof -
  have "n mod 10 < length ''0123456789''" by simp
  then have "''0123456789'' ! (n mod 10) \<in> set ''0123456789''" by (rule nth_mem)
  then show ?thesis by (simp only: is_digit_def digit_def)
qed

lemma decimal_two: "decimal [digit a, digit b] = 10 * (a mod 10) + b mod 10"
  by (simp add: decimal_def digit_value_digit)

lemma decimal_four:
  "decimal [digit a, digit b, digit c, digit e] =
     10 * (10 * (10 * (a mod 10) + b mod 10) + c mod 10) + e mod 10"
  by (simp add: decimal_def digit_value_digit)

lemma decimal_pad2: "n < 100 \<Longrightarrow> decimal (pad2 n) = n"
proof -
  assume "n < 100"
  then have "n div 10 < 10" by arith
  then have "n div 10 mod 10 = n div 10" by simp
  then have "decimal (pad2 n) = 10 * (n div 10) + n mod 10"
    by (simp only: pad2_def decimal_two)
  then show ?thesis by simp
qed

lemma decimal_pad4: "n < 10000 \<Longrightarrow> decimal (pad4 n) = n"
proof -
  assume "n < 10000"
  then have "n div 1000 < 10" by arith
  then have d3: "n div 1000 mod 10 = n div 1000" by simp
  have q2: "n div 1000 = n div 100 div 10" by (simp add: div_mult2_eq)
  have q1: "n div 100 = n div 10 div 10" by (simp add: div_mult2_eq)
  have "decimal (pad4 n) =
          10 * (10 * (10 * (n div 1000) + n div 100 mod 10) + n div 10 mod 10) + n mod 10"
    by (simp only: pad4_def decimal_four d3)
  also have "10 * (n div 1000) + n div 100 mod 10 = n div 100"
    by (simp only: q2 mult_div_mod_eq)
  also have "10 * (n div 100) + n div 10 mod 10 = n div 10"
    by (simp only: q1 mult_div_mod_eq)
  also have "10 * (n div 10) + n mod 10 = n" by (simp only: mult_div_mod_eq)
  finally show ?thesis .
qed

lemma length_pad [simp]: "length (pad2 n) = 2" "length (pad4 n) = 4"
  by (simp_all add: pad2_def pad4_def)

lemma strftime_shape:
  "length (strftime d) = 15 \<and> list_all is_digit (take 8 (strftime d)) \<and>
   strftime d ! 8 = CHR ''_'' \<and> list_all is_digit (drop 9 (strftime d))"
  by (simp add: strftime_def pad2_def pad4_def is_digit_digit)

lemma strftime_fields:
  assumes "valid_datetime d"
  shows "decimal (take 4 (strftime d)) = year d \<and>
         decimal (take 2 (drop 4 (strftime d))) = month d \<and>
         decimal (take 2 (drop 6 (strftime d))) = day d \<and>
         decimal (take 2 (drop 9 (strftime d))) = hour d \<and>
         decimal (take 2 (drop 11 (strftime d))) = minute d \<and>
         decimal (drop 13 (strftime d)) = second d"
proof -
  from assms have "year d < 10000" "month d < 100" "day d < 100" "hour d < 100"
    "minute d < 100" "second d < 100"
    by (simp_all add: valid_datetime_def)
  then show ?thesis
    by (simp add: strftime_def decimal_pad2 decimal_pad4)
qed

subsection \<open>Where the analyzed text comes from\<close>

lemma split_once_sep:
  assumes "c \<in> set s"
  shows "\<exists>a b. split_once c s = [a, b] \<and> s = a @ c # b \<and> c \<notin> set a"
proof -
  let ?a = "takeWhile (\<lambda>x. x \<noteq> c) s" and ?d = "dropWhile (\<lambda>x. x \<noteq> c) s"
  from assms have "?d \<noteq> []" by (induction s) auto
  then obtain y b where d: "?d = y # b" by (cases ?d) auto
  then have "y = c" using hd_dropWhile[of "\<lambda>x. x \<noteq> c" s] by auto
  moreover have "s = ?a @ ?d" by simp
  moreover have "c \<notin> set ?a" using set_takeWhileD by fastforce
  ultimately show ?thesis using d by (auto simp: split_once_def)
qed

lemma split_once_two:
  assumes "split_once c s = [b, k]"
  shows "s = b @ c # k \<and> c \<notin> set b"
proof (cases "c \<in> set s")
  case True
  from split_once_sep [OF this] assms show ?thesis by auto
next
  case False
  from split_once_no_sep [OF this] assms show ?thesis by simp
qed

text \<open>A download that returns has read the blob its path names.\<close>

lemma download_Next_path:
  assumes "download_from_gcs env p = (Next v, t)"
  shows "\<exists>s b k txt. p = PStr s \<and> prefix ''gs://'' s \<and>
           split_once (CHR ''/'') (drop 5 s) = [b, k] \<and>
           s = ''gs://'' @ b @ ''/'' @ k \<and> CHR ''/'' \<notin> set b \<and>
           download_as_text env b k = Inr txt \<and> v = PStr txt \<and> t = [StorageRead b k]"
proof (cases p)
  case (PStr s)
  with assms have pre: "prefix ''gs://'' s"
    by (auto simp: download_from_gcs_def split: if_splits)
  then have s: "s = ''gs://'' @ drop 5 s" by (auto simp: prefix_def)
  let ?parts = "split_once (CHR ''/'') (drop 5 s)"
  from assms PStr pre have len: "1 < length ?parts"
    and dl: "download_as_text env (?parts ! 0) (?parts ! 1) =
               Inr (case v of PStr x \<Rightarrow> x | _ \<Rightarrow> [])"
      "\<exists>txt. v = PStr txt" "t = [StorageRead (?parts ! 0) (?parts ! 1)]"
    by (auto simp: download_from_gcs_def andthen_eqs Let_def py_index_def split: if_splits)
  have "\<exists>b k. ?parts = [b, k]"
    using len by (cases "CHR ''/'' \<in> set (drop 5 s)")
      (auto dest: split_once_sep simp: split_once_no_sep)
  then obtain b k where bk: "?parts = [b, k]" by blast
  from split_once_two [OF bk] s have "s = ''gs://'' @ b @ ''/'' @ k" "CHR ''/'' \<notin> set b"
    by auto
  with PStr pre bk dl show ?thesis by auto
qed (use assms in \<open>auto simp: download_from_gcs_def\<close>)

lemma resolved_source:
  assumes "if truthy gp then download_from_gcs env gp = (Next src, t1) else src = sc \<and> t1 = []"
  shows "(\<not> truthy gp \<and> src = sc \<and> t1 = []) \<or>
         (truthy gp \<and>
          (\<exists>s b k txt. gp = PStr s \<and> prefix ''gs://'' s \<and>
             split_once (CHR ''/'') (drop 5 s) = [b, k] \<and>
             s = ''gs://'' @ b @ ''/'' @ k \<and> CHR ''/'' \<notin> set b \<and>
             download_as_text env b k = Inr txt \<and> src = PStr txt \<and> t1 = [StorageRead b k]))"
  using assms by (cases "truthy gp") (auto dest!: download_Next_path)


lemma analyzed_source_generate_tests:
  assumes run: "generate_tests env request = (r, t)"
    and ev: "AnalyzeCall src lang \<in> set t"
  shows "\<exists>data sc gp.
           get_json request = Inr data \<and>
           py_get data ''source_code'' PNone = Inr sc \<and>
           py_get data ''gcs_path'' PNone = Inr gp \<and>
           (if truthy gp
            then \<exists>s b k txt rest. gp = PStr s \<and> prefix ''gs://'' s \<and>
                   split_once (CHR ''/'') (drop 5 s) = [b, k] \<and>
                   s = ''gs://'' @ b @ ''/'' @ k \<and> CHR ''/'' \<notin> set b \<and>
                   download_as_text env b k = Inr txt \<and> src = PStr txt \<and>
                   t = StorageRead b k # AnalyzeCall src lang # rest
            else truthy sc \<and> src = sc \<and> (\<exists>rest. t = AnalyzeCall src lang # rest))"
  using run
proof (cases rule: generate_tests_run)
  case quiet
  with ev show ?thesis by simp
next
  case (read_failed b k e)
  with ev show ?thesis by simp
next
  case (pipeline data sc gp src' lang' tt fw t1 t2 fl)
  from pipeline_run [OF pipeline(10)]
  have t2: "\<exists>rest. t2 = AnalyzeCall src' lang' # rest \<and> AnalyzeCall src lang \<notin> set rest"
    by (elim disjE exE conjE) simp_all
  with resolved_trace [OF pipeline(6)] ev pipeline(11)
  have same: "src = src'" "lang = lang'" by auto
  from resolved_source [OF pipeline(6)] t2 pipeline(5,11) same
  have "if truthy gp
            then \<exists>s b k txt rest. gp = PStr s \<and> prefix ''gs://'' s \<and>
                   split_once (CHR ''/'') (drop 5 s) = [b, k] \<and>
                   s = ''gs://'' @ b @ ''/'' @ k \<and> CHR ''/'' \<notin> set b \<and>
                   download_as_text env b k = Inr txt \<and> src = PStr txt \<and>
                   t = StorageRead b k # AnalyzeCall src lang # rest
            else truthy sc \<and> src = sc \<and> (\<exists>rest. t = AnalyzeCall src lang # rest)"
    by auto
  with pipeline(1,3,4) show ?thesis by blast
qed

lemma analyzed_source_analyze_code:
  assumes run: "analyze_code env request = (r, t)"
    and ev: "AnalyzeCall src lang \<in> set t"
  shows "\<exists>data sc gp.
           get_json request = Inr data \<and>
           py_get data ''source_code'' PNone = Inr sc \<and>
           py_get data ''gcs_path'' PNone = Inr gp \<and>
           (if truthy gp
            then \<exists>s b k txt rest. gp = PStr s \<and> prefix ''gs://'' s \<and>
                   split_once (CHR ''/'') (drop 5 s) = [b, k] \<and>
                   s = ''gs://'' @ b @ ''/'' @ k \<and> CHR ''/'' \<notin> set b \<and>
                   download_as_text env b k = Inr txt \<and> src = PStr txt \<and>
                   t = StorageRead b k # AnalyzeCall src lang # rest
            else truthy sc \<and> src = sc \<and> (\<exists>rest. t = AnalyzeCall src lang # rest))"
proof -
  obtain fl where "analyze_code_try env request = (fl, t)"
    using run
    by (cases "analyze_code_try env request"; cases "fst (analyze_code_try env request)")
       (auto simp: analyze_code_def)
  from analyze_code_try_run [OF this] ev obtain data sc gp src' lang' t1 where
    facts: "get_json request = Inr data" "py_get data ''source_code'' PNone = Inr sc"
      "py_get data ''gcs_path'' PNone = Inr gp"
    and res: "if truthy gp then download_from_gcs env gp = (Next src', t1)
              else src' = sc \<and> t1 = []"
    and src: "truthy src'" and t: "t = t1 @ [AnalyzeCall src' lang']"
    by (elim disjE exE conjE) auto
  from resolved_trace [OF res] ev t have same: "src = src'" "lang = lang'" by auto
  from resolved_source [OF res] t src same
  have "if truthy gp
            then \<exists>s b k txt rest. gp = PStr s \<and> prefix ''gs://'' s \<and>
                   split_once (CHR ''/'') (drop 5 s) = [b, k] \<and>
                   s = ''gs://'' @ b @ ''/'' @ k \<and> CHR ''/'' \<notin> set b \<and>
                   download_as_text env b k = Inr txt \<and> src = PStr txt \<and>
                   t = StorageRead b k # AnalyzeCall src lang # rest
            else truthy sc \<and> src = sc \<and> (\<exists>rest. t = AnalyzeCall src lang # rest)"
    by auto
  with facts show ?thesis by blast
qed

section \<open>Running the handlers on concrete requests\<close>

lemmas run_simps =
  generate_tests_def generate_tests_try_def analyze_code_def analyze_code_try_def
  step1_analyze_def step2_generate_def step3_save_def prepare_response_def
  upload_to_gcs_def download_from_gcs_def andthen_def pure_def call_def jsonify_def
  py_index_def split_once_def Let_def

lemmas sample_simps =
  sample_env_def sample_analysis_def sample_tests_def sample_str_def quoted_def
  strftime_def pad2_def pad4_def digit_def

lemma both_run: "generate_tests sample_env both_request = (both_response, both_trace)"
  by (simp add: run_simps sample_simps both_request_def both_response_def both_trace_def)

lemma junit_run: "generate_tests sample_env junit_request = (junit_response, junit_trace)"
  by (simp add: run_simps sample_simps junit_request_def junit_response_def junit_trace_def)

lemma sample_clock: "valid_datetime (now sample_env)"
  by (simp add: valid_datetime_def sample_env_def)

section \<open>The claims\<close>

text \<open>
  Claim C1. The claim: whenever the analyzer returns a result with \<open>success = false\<close>, the
  response has status 400, on both endpoints. On \<^verbatim>\<open>/analyze-code\<close> the code answers 200
  with the failed result as the body: the handler never looks at \<open>success\<close>, whereas
  \<^verbatim>\<open>generate_tests\<close> answers 400 for the same analyzer result. The run below is a request
  in a language the sample analyzer rejects, sent to both endpoints.
\<close>

theorem analyze_code_failed_analysis_status_200:
  "analyze_code sample_env
     \<lparr>get_json = Inr (PDict [(''source_code'', PStr ''IDENTIFICATION DIVISION.''),
                              (''language'', PStr ''cobol'')])\<rparr> =
   (\<lparr>body = PDict [(''success'', PBool False), (''error'', PStr ''Unsupported language'')],
     status = 200\<rparr>,
    [AnalyzeCall (PStr ''IDENTIFICATION DIVISION.'') (PStr ''cobol'')]) \<and>
   generate_tests sample_env
     \<lparr>get_json = Inr (PDict [(''source_code'', PStr ''IDENTIFICATION DIVISION.''),
                              (''language'', PStr ''cobol'')])\<rparr> =
   (\<lparr>body = jsonify [(''error'', PStr ''Code analysis failed''),
                     (''details'', PStr ''Unsupported language'')],
     status = 400\<rparr>,
    [AnalyzeCall (PStr ''IDENTIFICATION DIVISION.'') (PStr ''cobol'')])"
  by (simp add: run_simps sample_env_def)

text \<open>
  Claim C2. The claim: on both endpoints the check of the required fields is over before
  any storage call. In \<^verbatim>\<open>analyze_code\<close> the check (line 132) comes after the download
  (line 130): a request whose \<open>gcs_path\<close> names an empty blob reads the blob and is then
  refused with the required-field error.
\<close>

theorem analyze_code_reads_before_required_check:
  "analyze_code sample_env
     \<lparr>get_json = Inr (PDict [(''gcs_path'', PStr ''gs://src-bucket/empty.py'')])\<rparr> =
   (\<lparr>body = jsonify [(''error'', PStr ''source_code or gcs_path is required'')], status = 400\<rparr>,
    [StorageRead ''src-bucket'' ''empty.py''])"
  by (simp add: run_simps sample_env_def)

text \<open>
  Claim C3, as stated: a \<open>gcs_path\<close> that is not of the shape \<^verbatim>\<open>scheme://bucket/key\<close> fails
  before any storage call and the response has status 400. The status is 500: the
  \<open>ValueError\<close> of \<^verbatim>\<open>download_from_gcs\<close> reaches the handler's \<^verbatim>\<open>except Exception\<close>.
\<close>

theorem bad_scheme_answers_500:
  "generate_tests sample_env
     \<lparr>get_json = Inr (PDict [(''gcs_path'', PStr ''src-bucket/add.py'')])\<rparr> =
   (\<lparr>body = jsonify [(''error'', PStr ''Internal server error''),
                     (''details'', PStr ''GCS path must start with gs://'')],
     status = 500\<rparr>, [])"
  by (simp add: run_simps sample_env_def sample_str_def)

text \<open>
  Claim C3, amended: for every non-empty \<open>gcs_path\<close> string that does not start with
  \<^verbatim>\<open>gs://\<close>, \<^verbatim>\<open>download_from_gcs\<close> raises \<open>ValueError\<close> before any storage call, and both
  endpoints answer 500 with the text of that error, having made no call at all.
\<close>

theorem bad_scheme_fails_before_storage:
  assumes "get_json request = Inr (PDict kvs)"
    and "map_of kvs ''gcs_path'' = Some (PStr s)" and "s \<noteq> []"
    and "\<not> prefix ''gs://'' s"
  shows "download_from_gcs env (PStr s) =
           (Raise (ValueError ''GCS path must start with gs://''), []) \<and>
         generate_tests env request =
           (\<lparr>body = jsonify [(''error'', PStr ''Internal server error''),
                             (''details'', PStr (str_exc env
                                (ValueError ''GCS path must start with gs://'')))],
             status = 500\<rparr>, []) \<and>
         analyze_code env request =
           (\<lparr>body = jsonify [(''error'', PStr (str_exc env
                                (ValueError ''GCS path must start with gs://'')))],
             status = 500\<rparr>, [])"
proof -
  from assms(2) have "kvs \<noteq> []" by auto
  moreover from assms(4)
  have "download_from_gcs env (PStr s) =
          (Raise (ValueError ''GCS path must start with gs://''), [])"
    by (simp add: download_from_gcs_def)
  ultimately show ?thesis using assms(1,2,3)
    by (simp add: generate_tests_def generate_tests_try_def analyze_code_def
          analyze_code_try_def andthen_pure_Inr andthen_Raise)
qed

theorem bad_scheme_fails_before_storage_witness:
  "get_json \<lparr>get_json = Inr (PDict [(''gcs_path'', PStr ''s3://src-bucket/add.py'')])\<rparr> =
     Inr (PDict [(''gcs_path'', PStr ''s3://src-bucket/add.py'')]) \<and>
   map_of [(''gcs_path'', PStr ''s3://src-bucket/add.py'')] ''gcs_path'' =
     Some (PStr ''s3://src-bucket/add.py'') \<and>
   ''s3://src-bucket/add.py'' \<noteq> [] \<and> \<not> prefix ''gs://'' ''s3://src-bucket/add.py'' \<and>
   download_from_gcs sample_env (PStr ''s3://src-bucket/add.py'') =
     (Raise (ValueError ''GCS path must start with gs://''), []) \<and>
   generate_tests sample_env
     \<lparr>get_json = Inr (PDict [(''gcs_path'', PStr ''s3://src-bucket/add.py'')])\<rparr> =
     (\<lparr>body = jsonify [(''error'', PStr ''Internal server error''),
                       (''details'', PStr ''GCS path must start with gs://'')],
       status = 500\<rparr>, []) \<and>
   analyze_code sample_env
     \<lparr>get_json = Inr (PDict [(''gcs_path'', PStr ''s3://src-bucket/add.py'')])\<rparr> =
     (\<lparr>body = jsonify [(''error'', PStr ''GCS path must start with gs://'')],
       status = 500\<rparr>, [])"
  using bad_scheme_fails_before_storage
    [of "\<lparr>get_json = Inr (PDict [(''gcs_path'', PStr ''s3://src-bucket/add.py'')])\<rparr>"
        "[(''gcs_path'', PStr ''s3://src-bucket/add.py'')]" "''s3://src-bucket/add.py''"
        sample_env]
  by (simp add: sample_env_def sample_str_def)

text \<open>
  Claim C4, as stated: a \<^verbatim>\<open>/generate-tests\<close> body with neither \<open>source_code\<close> nor
  \<open>gcs_path\<close> gets status 400 with the error "Either source_code or gcs_path is required".
  The empty object \<^verbatim>\<open>{}\<close> has neither field, and it is falsy: the guard \<^verbatim>\<open>if not data\<close>
  answers it first, with another error text.
\<close>

theorem empty_object_body_required:
  "generate_tests sample_env \<lparr>get_json = Inr (PDict [])\<rparr> =
   (\<lparr>body = jsonify [(''error'', PStr ''Request body is required'')], status = 400\<rparr>, [])"
  by (simp add: generate_tests_def generate_tests_try_def andthen_pure_Inr)

text \<open>
  Claim C4, amended: for every \<^verbatim>\<open>/generate-tests\<close> request whose body is a JSON object
  with at least one field and with neither \<open>source_code\<close> nor \<open>gcs_path\<close>, the response
  is 400 with the error "Either source_code or gcs_path is required", and the trace is
  empty: no storage, analyzer or generator call is made.
\<close>

theorem neither_field_rejected_without_calls:
  assumes "get_json request = Inr (PDict kvs)" and "kvs \<noteq> []"
    and "map_of kvs ''source_code'' = None" and "map_of kvs ''gcs_path'' = None"
  shows "generate_tests env request =
           (\<lparr>body = jsonify [(''error'', PStr ''Either source_code or gcs_path is required'')],
             status = 400\<rparr>, [])"
  using assms
  by (simp add: generate_tests_def generate_tests_try_def andthen_pure_Inr)

theorem neither_field_rejected_without_calls_witness:
  "get_json \<lparr>get_json = Inr (PDict [(''language'', PStr ''python'')])\<rparr> =
     Inr (PDict [(''language'', PStr ''python'')]) \<and>
   [(''language'', PStr ''python'')] \<noteq> [] \<and>
   map_of [(''language'', PStr ''python'')] ''source_code'' = None \<and>
   map_of [(''language'', PStr ''python'')] ''gcs_path'' = None \<and>
   generate_tests sample_env \<lparr>get_json = Inr (PDict [(''language'', PStr ''python'')])\<rparr> =
     (\<lparr>body = jsonify [(''error'', PStr ''Either source_code or gcs_path is required'')],
       status = 400\<rparr>, [])"
  using neither_field_rejected_without_calls
    [of "\<lparr>get_json = Inr (PDict [(''language'', PStr ''python'')])\<rparr>"
        "[(''language'', PStr ''python'')]" sample_env]
  by simp

text \<open>
  Claim C5. On \<^verbatim>\<open>/generate-tests\<close> a storage write happens only right after a generator
  call that returned a value, and what is written is the \<open>test_code\<close> entry of that value.
  When the generator call fails (it raises, or what it returns has no \<open>test_code\<close> to
  read), nothing is written and the response is the structured 500 error.
\<close>

theorem storage_write_only_after_generation:
  assumes run: "generate_tests env request = (r, t)"
  shows "(\<forall>b p c. StorageWrite b p c \<in> set t \<longrightarrow>
            (\<exists>pre src an lang tt fw g.
               t = pre @ [GenerateCall src an lang tt fw, StorageWrite b p c] \<and>
               generate env src an lang tt fw = Inr g \<and>
               py_getitem g ''test_code'' = Inr c)) \<and>
         (\<forall>src an lang tt fw.
            GenerateCall src an lang tt fw \<in> set t \<and>
            ((\<exists>e. generate env src an lang tt fw = Inl e) \<or>
             (\<exists>g e. generate env src an lang tt fw = Inr g \<and>
                    py_getitem g ''test_code'' = Inl e)) \<longrightarrow>
            (\<forall>b p c. StorageWrite b p c \<notin> set t) \<and> status r = 500 \<and>
            (\<exists>d. body r = jsonify [(''error'', PStr ''Internal server error''),
                                   (''details'', PStr d)]))"
  using run
proof (cases rule: generate_tests_run)
  case quiet
  then show ?thesis by simp
next
  case (read_failed b k e)
  then show ?thesis by simp
next
  case (pipeline data sc gp src lang tt fw t1 t2 fl)
  from resolved_trace [OF pipeline(6)] have t1: "t1 = [] \<or> (\<exists>b k. t1 = [StorageRead b k])"
    by blast
  from pipeline_run [OF pipeline(10)] show ?thesis
  proof (elim disjE exE conjE)
    assume "t2 = [AnalyzeCall src lang]"
    with t1 pipeline(11) show ?thesis by auto
  next
    assume "t2 = [AnalyzeCall src lang]"
    with t1 pipeline(11) show ?thesis by auto
  next
    fix ar s an e
    assume "t2 = [AnalyzeCall src lang, GenerateCall src an lang tt fw]" "fl = Raise e"
    with t1 pipeline(11,12) show ?thesis by auto
  next
    fix ar s an e g
    assume "t2 = [AnalyzeCall src lang, GenerateCall src an lang tt fw]" "fl = Raise e"
    with t1 pipeline(11,12) show ?thesis by auto
  next
    fix ar s an g c e
    assume "t2 = [AnalyzeCall src lang, GenerateCall src an lang tt fw,
                  StorageWrite (BUCKET_NAME env)
                    (''generated_tests/'' @ strftime (now env) @ ''_tests.py'') c]"
      "generate env src an lang tt fw = Inr g" "py_getitem g ''test_code'' = Inr c"
    with t1 pipeline(11) show ?thesis by auto
  next
    fix ar s an g c resp
    assume "t2 = [AnalyzeCall src lang, GenerateCall src an lang tt fw,
                  StorageWrite (BUCKET_NAME env)
                    (''generated_tests/'' @ strftime (now env) @ ''_tests.py'') c]"
      "generate env src an lang tt fw = Inr g" "py_getitem g ''test_code'' = Inr c"
    with t1 pipeline(11) show ?thesis by auto
  qed
qed

theorem storage_write_only_after_generation_witness:
  "generate_tests sample_env both_request = (both_response, both_trace) \<and>
   StorageWrite ''ai-test-generator-bucket'' ''generated_tests/20240309_140507_tests.py''
     (PStr ''def test_add(): assert add(1, 2) == 3'') \<in> set both_trace \<and>
   (\<exists>pre src an lang tt fw g.
      both_trace = pre @ [GenerateCall src an lang tt fw,
        StorageWrite ''ai-test-generator-bucket'' ''generated_tests/20240309_140507_tests.py''
          (PStr ''def test_add(): assert add(1, 2) == 3'')] \<and>
      generate sample_env src an lang tt fw = Inr g \<and>
      py_getitem g ''test_code'' = Inr (PStr ''def test_add(): assert add(1, 2) == 3'')) \<and>
   generate_tests sample_env junit_request = (junit_response, junit_trace) \<and>
   GenerateCall (PStr ''def add(a, b): return a + b'') sample_analysis (PStr ''python'')
     (PList [PStr ''unit'', PStr ''edge'', PStr ''negative'']) (PStr ''junit'') \<in> set junit_trace \<and>
   generate sample_env (PStr ''def add(a, b): return a + b'') sample_analysis (PStr ''python'')
     (PList [PStr ''unit'', PStr ''edge'', PStr ''negative'']) (PStr ''junit'')
     = Inl (External ''incompatible framework'') \<and>
   StorageWrite ''ai-test-generator-bucket'' ''generated_tests/20240309_140507_tests.py''
     (PStr ''def test_add(): assert add(1, 2) == 3'') \<notin> set junit_trace \<and>
   status junit_response = 500"
proof -
  have w: "StorageWrite ''ai-test-generator-bucket'' ''generated_tests/20240309_140507_tests.py''
     (PStr ''def test_add(): assert add(1, 2) == 3'') \<in> set both_trace"
    by (simp add: both_trace_def)
  have g: "GenerateCall (PStr ''def add(a, b): return a + b'') sample_analysis (PStr ''python'')
     (PList [PStr ''unit'', PStr ''edge'', PStr ''negative'']) (PStr ''junit'') \<in> set junit_trace"
    by (simp add: junit_trace_def)
  have f: "generate sample_env (PStr ''def add(a, b): return a + b'') sample_analysis
     (PStr ''python'') (PList [PStr ''unit'', PStr ''edge'', PStr ''negative'']) (PStr ''junit'')
     = Inl (External ''incompatible framework'')"
    by (simp add: sample_env_def)
  from storage_write_only_after_generation [OF both_run] w
    storage_write_only_after_generation [OF junit_run] g f both_run junit_run
  show ?thesis by blast
qed

text \<open>
  Claim C6, as stated: source_code and gcs_path are exclusive, a request carrying both is
  not a valid input. The handler accepts such a request: it answers 200, having read the
  blob and analyzed the blob's text, not the inline source.
\<close>

theorem both_fields_accepted:
  "status (fst (generate_tests sample_env
     \<lparr>get_json = Inr (PDict [(''source_code'', PStr ''x = 1''),
                              (''gcs_path'', PStr ''gs://src-bucket/add.py'')])\<rparr>)) = 200 \<and>
   take 2 (snd (generate_tests sample_env
     \<lparr>get_json = Inr (PDict [(''source_code'', PStr ''x = 1''),
                              (''gcs_path'', PStr ''gs://src-bucket/add.py'')])\<rparr>)) =
     [StorageRead ''src-bucket'' ''add.py'',
      AnalyzeCall (PStr ''def add(a, b): return a + b'') (PStr ''python'')]"
  using both_run by (simp add: both_request_def both_response_def both_trace_def)

text \<open>
  Claim C6, amended: a request may carry both fields. On either endpoint, whenever the
  analyzer is called, its text has exactly one origin: when \<open>gcs_path\<close> is truthy it is the
  text of the blob that \<open>gcs_path\<close> names, \<^verbatim>\<open>gs://bucket/key\<close> cut at the first slash after
  the prefix (an inline \<open>source_code\<close> is ignored), otherwise it is
  the truthy \<open>source_code\<close> of the body; and the trace begins with that resolution, the
  storage read if there is one, immediately followed by the analyzer call.
\<close>

theorem analyzed_text_has_one_source:
  assumes "generate_tests env request = (r, t) \<or> analyze_code env request = (r, t)"
    and "AnalyzeCall src lang \<in> set t"
  shows "\<exists>data sc gp.
           get_json request = Inr data \<and>
           py_get data ''source_code'' PNone = Inr sc \<and>
           py_get data ''gcs_path'' PNone = Inr gp \<and>
           (if truthy gp
            then \<exists>s b k txt rest. gp = PStr s \<and> prefix ''gs://'' s \<and>
                   split_once (CHR ''/'') (drop 5 s) = [b, k] \<and>
                   s = ''gs://'' @ b @ ''/'' @ k \<and> CHR ''/'' \<notin> set b \<and>
                   download_as_text env b k = Inr txt \<and> src = PStr txt \<and>
                   t = StorageRead b k # AnalyzeCall src lang # rest
            else truthy sc \<and> src = sc \<and> (\<exists>rest. t = AnalyzeCall src lang # rest))"
  using assms analyzed_source_generate_tests analyzed_source_analyze_code by blast

theorem analyzed_text_has_one_source_witness:
  "(generate_tests sample_env both_request = (both_response, both_trace) \<or>
    analyze_code sample_env both_request = (both_response, both_trace)) \<and>
   AnalyzeCall (PStr ''def add(a, b): return a + b'') (PStr ''python'') \<in> set both_trace \<and>
   (\<exists>data sc gp.
      get_json both_request = Inr data \<and>
      py_get data ''source_code'' PNone = Inr sc \<and>
      py_get data ''gcs_path'' PNone = Inr gp \<and>
      (if truthy gp
       then \<exists>s b k txt rest. gp = PStr s \<and> prefix ''gs://'' s \<and>
              split_once (CHR ''/'') (drop 5 s) = [b, k] \<and>
              s = ''gs://'' @ b @ ''/'' @ k \<and> CHR ''/'' \<notin> set b \<and>
              download_as_text sample_env b k = Inr txt \<and>
              PStr ''def add(a, b): return a + b'' = PStr txt \<and>
              both_trace = StorageRead b k #
                AnalyzeCall (PStr ''def add(a, b): return a + b'') (PStr ''python'') # rest
       else truthy sc \<and> PStr ''def add(a, b): return a + b'' = sc \<and>
            (\<exists>rest. both_trace =
               AnalyzeCall (PStr ''def add(a, b): return a + b'') (PStr ''python'') # rest)))"
proof -
  have run: "generate_tests sample_env both_request = (both_response, both_trace) \<or>
    analyze_code sample_env both_request = (both_response, both_trace)"
    using both_run by simp
  have ev: "AnalyzeCall (PStr ''def add(a, b): return a + b'') (PStr ''python'')
              \<in> set both_trace"
    by (simp add: both_trace_def)
  from analyzed_text_has_one_source [OF run ev] run ev show ?thesis by blast
qed

text \<open>
  Claim C7. Every \<^verbatim>\<open>/generate-tests\<close> request answered with 200 has written the
  generated tests to the configured bucket under the key
  \<^verbatim>\<open>generated_tests/{timestamp}_tests.py\<close>, the write has succeeded, and the \<open>gcs_path\<close>
  field of the response is \<^verbatim>\<open>gs://\<close>, the bucket name, a slash and that key. The timestamp
  is the clock printed as \<^verbatim>\<open>YYYYMMDD_HHMMSS\<close>: fifteen characters, eight digits, an
  underscore, six digits, which read back as the year, month, day, hour, minute and
  second of the clock.
\<close>

theorem tests_saved_under_timestamped_key:
  assumes run: "generate_tests env request = (r, t)" and ok: "status r = 200"
    and clock: "valid_datetime (now env)"
  shows "\<exists>ts key c.
           ts = strftime (now env) \<and> key = ''generated_tests/'' @ ts @ ''_tests.py'' \<and>
           StorageWrite (BUCKET_NAME env) key c \<in> set t \<and>
           upload_from_string env (BUCKET_NAME env) key c = Inr () \<and>
           py_getitem (body r) ''generated_tests'' = Inr c \<and>
           py_getitem (body r) ''gcs_path'' =
             Inr (PStr (''gs://'' @ BUCKET_NAME env @ ''/'' @ key)) \<and>
           length ts = 15 \<and> list_all is_digit (take 8 ts) \<and> ts ! 8 = CHR ''_'' \<and>
           list_all is_digit (drop 9 ts) \<and>
           decimal (take 4 ts) = year (now env) \<and>
           decimal (take 2 (drop 4 ts)) = month (now env) \<and>
           decimal (take 2 (drop 6 ts)) = day (now env) \<and>
           decimal (take 2 (drop 9 ts)) = hour (now env) \<and>
           decimal (take 2 (drop 11 ts)) = minute (now env) \<and>
           decimal (drop 13 ts) = second (now env)"
proof -
  from ok_run [OF run ok] obtain tt fw ar g c t1 resp src lang an where
    c: "py_getitem g ''test_code'' = Inr c"
    and t: "t = t1 @ [AnalyzeCall src lang, GenerateCall src an lang tt fw,
                     StorageWrite (BUCKET_NAME env)
                       (''generated_tests/'' @ strftime (now env) @ ''_tests.py'') c]"
    and r: "r = \<lparr>body = resp, status = 200\<rparr>"
    and up: "upload_from_string env (BUCKET_NAME env)
               (''generated_tests/'' @ strftime (now env) @ ''_tests.py'') c = Inr ()"
    and resp: "prepare_response ar g
             (PStr (''gs://'' @ BUCKET_NAME env @ ''/'' @
                    ''generated_tests/'' @ strftime (now env) @ ''_tests.py''))
             tt fw (strftime (now env)) = (Next resp, [])"
    by blast
  from prepare_response_Next [OF resp] c r
  have "py_getitem (body r) ''generated_tests'' = Inr c"
    "py_getitem (body r) ''gcs_path'' =
       Inr (PStr (''gs://'' @ BUCKET_NAME env @ ''/'' @
                  ''generated_tests/'' @ strftime (now env) @ ''_tests.py''))"
    by auto
  moreover from t have "StorageWrite (BUCKET_NAME env)
      (''generated_tests/'' @ strftime (now env) @ ''_tests.py'') c \<in> set t"
    by simp
  ultimately show ?thesis
    using up strftime_shape [of "now env"] strftime_fields [OF clock] by blast
qed

theorem tests_saved_under_timestamped_key_witness:
  "generate_tests sample_env both_request = (both_response, both_trace) \<and>
   status both_response = 200 \<and> valid_datetime (now sample_env) \<and>
   strftime (now sample_env) = ''20240309_140507'' \<and>
   (\<exists>c. StorageWrite (BUCKET_NAME sample_env)
           (''generated_tests/'' @ strftime (now sample_env) @ ''_tests.py'') c
           \<in> set both_trace \<and>
        py_getitem (body both_response) ''generated_tests'' = Inr c \<and>
        py_getitem (body both_response) ''gcs_path'' =
          Inr (PStr (''gs://'' @ BUCKET_NAME sample_env @ ''/'' @
                     ''generated_tests/'' @ strftime (now sample_env) @ ''_tests.py''))) \<and>
   decimal (take 4 (strftime (now sample_env))) = year (now sample_env)"
proof -
  have ok: "status both_response = 200" by (simp add: both_response_def)
  have ts: "strftime (now sample_env) = ''20240309_140507''"
    by (simp add: sample_simps)
  from tests_saved_under_timestamped_key [OF both_run ok sample_clock] both_run ok
    sample_clock ts
  show ?thesis by blast
qed



text \<open>
  Claim C9. A \<open>gcs_path\<close> that starts with \<^verbatim>\<open>gs://\<close> and has no \<^verbatim>\<open>/\<close> after that prefix
  makes \<^verbatim>\<open>download_from_gcs\<close> raise \<open>IndexError\<close> (from \<^verbatim>\<open>path_parts[1]\<close>), with no storage
  call made, and not the \<open>ValueError\<close> the function has for a malformed address.
\<close>

theorem bucket_only_path_raises_IndexError:
  assumes "prefix ''gs://'' s" and "CHR ''/'' \<notin> set (drop 5 s)"
  shows "download_from_gcs env (PStr s) = (Raise IndexError, [])"
  using assms
  by (simp add: download_from_gcs_def split_once_no_sep py_index_def andthen_pure_Inr
        andthen_pure_Inl Let_def)

theorem bucket_only_path_raises_IndexError_witness:
  "prefix ''gs://'' ''gs://bucket-only'' \<and> CHR ''/'' \<notin> set (drop 5 ''gs://bucket-only'') \<and>
   download_from_gcs sample_env (PStr ''gs://bucket-only'') = (Raise IndexError, [])"
  using bucket_only_path_raises_IndexError [of "''gs://bucket-only''" sample_env] by simp

text \<open>
  Claim C10, as stated: a \<^verbatim>\<open>/analyze-code\<close> request with an absent or non-JSON body gets
  500 while the same request to \<^verbatim>\<open>/generate-tests\<close> gets 400 with "Request body is
  required". When the body is not JSON, \<^verbatim>\<open>request.get_json()\<close> does not return \<open>None\<close>:
  it raises, inside the \<^verbatim>\<open>try\<close> block, and \<^verbatim>\<open>/generate-tests\<close> answers 500 as well.
\<close>

theorem malformed_body_both_answer_500:
  "generate_tests sample_env
     \<lparr>get_json = Inl (External ''400 Bad Request: Failed to decode JSON object'')\<rparr> =
     (\<lparr>body = jsonify [(''error'', PStr ''Internal server error''),
                       (''details'', PStr ''400 Bad Request: Failed to decode JSON object'')],
       status = 500\<rparr>, []) \<and>
   analyze_code sample_env
     \<lparr>get_json = Inl (External ''400 Bad Request: Failed to decode JSON object'')\<rparr> =
     (\<lparr>body = jsonify [(''error'', PStr ''400 Bad Request: Failed to decode JSON object'')],
       status = 500\<rparr>, [])"
  by (simp add: run_simps sample_env_def sample_str_def)

text \<open>
  Claim C10, amended: when \<^verbatim>\<open>request.get_json()\<close> returns \<open>None\<close>, \<^verbatim>\<open>/analyze-code\<close>
  answers 500 (the \<open>AttributeError\<close> of \<^verbatim>\<open>data.get\<close>, caught by the generic handler) and
  \<^verbatim>\<open>/generate-tests\<close> answers 400 with the error "Request body is required"; when
  \<^verbatim>\<open>request.get_json()\<close> raises, both endpoints answer 500. Neither makes a call.
\<close>

theorem missing_body_status_differs:
  "analyze_code env \<lparr>get_json = Inr PNone\<rparr> =
     (\<lparr>body = jsonify [(''error'', PStr (str_exc env (AttributeError ''NoneType'' ''get'')))],
       status = 500\<rparr>, []) \<and>
   generate_tests env \<lparr>get_json = Inr PNone\<rparr> =
     (\<lparr>body = jsonify [(''error'', PStr ''Request body is required'')], status = 400\<rparr>, []) \<and>
   analyze_code env \<lparr>get_json = Inl e\<rparr> =
     (\<lparr>body = jsonify [(''error'', PStr (str_exc env e))], status = 500\<rparr>, []) \<and>
   generate_tests env \<lparr>get_json = Inl e\<rparr> =
     (\<lparr>body = jsonify [(''error'', PStr ''Internal server error''),
                       (''details'', PStr (str_exc env e))],
       status = 500\<rparr>, [])"
  by (simp add: run_simps)

end
